theory Spec2Isabelle
  imports Main "HOL-Library.Word"
begin

section \<open>JavaScript strings\<close>

text \<open>
  A JavaScript string is a sequence of UTF-16 code units. The handlers compare code units
  with ASCII constants and with the white space class of \<^verbatim>\<open>trim()\<close> and of the regular
  expression atom \<^verbatim>\<open>\s\<close>, which holds code units above 255, so a code unit is a 16-bit word.
  \<open>js\<close> turns an ASCII literal into such a string.
\<close>

type_synonym code_unit = "16 word"
type_synonym jsstring = "code_unit list"

definition js :: "string \<Rightarrow> jsstring" where
  "js s = map of_char s"

text \<open>
  White space and line terminators of ECMAScript: what \<^verbatim>\<open>String.prototype.trim\<close> removes and
  what \<^verbatim>\<open>\s\<close> matches.
\<close>

definition is_space :: "code_unit \<Rightarrow> bool" where
  "is_space c \<longleftrightarrow>
     c \<in> {0x09, 0x0A, 0x0B, 0x0C, 0x0D, 0x20, 0xA0, 0x1680, 0x2028, 0x2029,
          0x202F, 0x205F, 0x3000, 0xFEFF}
     \<or> (0x2000 \<le> c \<and> c \<le> 0x200A)"

definition trim :: "jsstring \<Rightarrow> jsstring" where
  "trim s = rev (dropWhile is_space (rev (dropWhile is_space s)))"

definition startsWith :: "jsstring \<Rightarrow> jsstring \<Rightarrow> bool" where
  "startsWith s p \<longleftrightarrow> take (length p) s = p"

text \<open>\<^verbatim>\<open>xs.join(sep)\<close> on an array of strings; also used to lay out multi-line literals.\<close>

fun join :: "jsstring \<Rightarrow> jsstring list \<Rightarrow> jsstring" where
  "join sep [] = []"
| "join sep [x] = x"
| "join sep (x # y # ys) = x @ sep @ join sep (y # ys)"

section \<open>The two fence patterns\<close>

text \<open>
  \<^verbatim>\<open>jsonText.replace(/```json?\n?/g, '').replace(/```\s*$/g, '').trim()\<close>

  In the first pattern the \<^verbatim>\<open>?\<close> binds to the single letter before it: the pattern is the six
  code units \<^verbatim>\<open>```jso\<close>, then an optional \<^verbatim>\<open>n\<close>, then an optional line feed. With the \<^verbatim>\<open>g\<close>
  flag every match of a left-to-right scan is replaced, and the scan goes on after the match.
  Both optional atoms are greedy and nothing follows them, so each is taken whenever it is there.
\<close>

definition fence :: jsstring where
  "fence = [0x60, 0x60, 0x60]"

definition open_tag :: jsstring where
  "open_tag = [0x60, 0x60, 0x60, 0x6A, 0x73, 0x6F]"

definition optional :: "code_unit \<Rightarrow> jsstring \<Rightarrow> jsstring" where
  "optional c s = (case s of [] \<Rightarrow> [] | x # xs \<Rightarrow> if x = c then xs else s)"

lemma length_optional: "length (optional c s) \<le> length s"
  by (simp add: optional_def split: list.splits)

function replace_open :: "jsstring \<Rightarrow> jsstring" where
  "replace_open [] = []"
| "replace_open (c # cs) =
     (if startsWith (c # cs) open_tag
      then replace_open (optional 0x0A (optional 0x6E (drop 5 cs)))
      else c # replace_open cs)"
  by pat_completeness auto
termination
proof (relation "measure length")
  show "wf (measure length)" by simp
next
  fix c :: code_unit and cs :: jsstring
  have "length (optional 0x0A (optional 0x6E (drop 5 cs))) \<le> length cs"
    by (rule order_trans [OF length_optional], rule order_trans [OF length_optional]) simp
  then show "(optional 0x0A (optional 0x6E (drop 5 cs)), c # cs) \<in> measure length"
    by simp
next
  fix c :: code_unit and cs :: jsstring
  show "(cs, c # cs) \<in> measure length" by simp
qed

text \<open>
  The second pattern has no \<^verbatim>\<open>m\<close> flag, so \<^verbatim>\<open>$\<close> is the end of the text: a match is a fence
  with nothing but white space between it and the end, the leftmost such place is taken and
  the match runs to the end of the text.
\<close>

fun replace_close :: "jsstring \<Rightarrow> jsstring" where
  "replace_close [] = []"
| "replace_close (c # cs) =
     (if startsWith (c # cs) fence \<and> list_all is_space (drop 2 cs)
      then []
      else c # replace_close cs)"

text \<open>Where a pattern can match: \<open>occurs p t\<close> says that \<open>p\<close> starts somewhere in \<open>t\<close>, and
  \<open>closes t\<close> that somewhere in \<open>t\<close> a fence is followed by white space only.\<close>

fun occurs :: "jsstring \<Rightarrow> jsstring \<Rightarrow> bool" where
  "occurs p [] = (p = [])"
| "occurs p (c # cs) = (startsWith (c # cs) p \<or> occurs p cs)"

fun closes :: "jsstring \<Rightarrow> bool" where
  "closes [] = False"
| "closes (c # cs) = ((startsWith (c # cs) fence \<and> list_all is_space (drop 2 cs)) \<or> closes cs)"

text \<open>Lines 204 to 206 of \<^verbatim>\<open>api/analyze.js\<close>, applied to the trimmed text.\<close>

definition strip_fences :: "jsstring \<Rightarrow> jsstring" where
  "strip_fences t =
     (if startsWith t fence then trim (replace_close (replace_open t)) else t)"

section \<open>JSON values and \<^verbatim>\<open>JSON.parse\<close>\<close>

text \<open>
  \<^verbatim>\<open>JSON.parse\<close> belongs to the platform. It is modelled after the JSON grammar of ECMA-404 that
  ECMA-262 prescribes for it: a scanner from code units to tokens and a stack machine from
  tokens to a value. A number keeps the text of its literal (its value in JavaScript is a
  double); an object keeps its members in the order of the text, and a later member of the
  same name overrides an earlier one when a property is read.
\<close>

datatype json =
    JNull
  | JBool bool
  | JNumber jsstring
  | JString jsstring
  | JArray "json list"
  | JObject "(jsstring \<times> json) list"

datatype token =
    LBrace | RBrace | LBracket | RBracket | Colon | Comma
  | TString jsstring | TNumber jsstring | TTrue | TFalse | TNull

definition json_space :: "code_unit \<Rightarrow> bool" where
  "json_space c \<longleftrightarrow> c = 0x09 \<or> c = 0x0A \<or> c = 0x0D \<or> c = 0x20"

definition is_digit :: "code_unit \<Rightarrow> bool" where
  "is_digit c \<longleftrightarrow> 0x30 \<le> c \<and> c \<le> 0x39"

definition hex_digit :: "code_unit \<Rightarrow> code_unit option" where
  "hex_digit c =
     (if 0x30 \<le> c \<and> c \<le> 0x39 then Some (c - 0x30)
      else if 0x41 \<le> c \<and> c \<le> 0x46 then Some (c - 0x37)
      else if 0x61 \<le> c \<and> c \<le> 0x66 then Some (c - 0x57)
      else None)"

definition unescape :: "code_unit \<Rightarrow> code_unit option" where
  "unescape e =
     (if e = 0x22 \<or> e = 0x5C \<or> e = 0x2F then Some e
      else if e = 0x62 then Some 0x08
      else if e = 0x66 then Some 0x0C
      else if e = 0x6E then Some 0x0A
      else if e = 0x72 then Some 0x0D
      else if e = 0x74 then Some 0x09
      else None)"

definition unicode_escape :: "jsstring \<Rightarrow> code_unit option" where
  "unicode_escape hs =
     (case map hex_digit hs of
        [Some a, Some b, Some c, Some d] \<Rightarrow> Some (a * 0x1000 + b * 0x100 + c * 0x10 + d)
      | _ \<Rightarrow> None)"

definition cons_fst :: "'a \<Rightarrow> ('a list \<times> 'b) option \<Rightarrow> ('a list \<times> 'b) option" where
  "cons_fst x r = map_option (\<lambda>(xs, y). (x # xs, y)) r"

fun scan_string :: "jsstring \<Rightarrow> (jsstring \<times> jsstring) option" where
  "scan_string [] = None"
| "scan_string (c # cs) =
     (if c = 0x22 then Some ([], cs)
      else if c < 0x20 then None
      else if c \<noteq> 0x5C then cons_fst c (scan_string cs)
      else (case cs of
              [] \<Rightarrow> None
            | e # r \<Rightarrow>
                if e = 0x75
                then (case unicode_escape (take 4 r) of
                        None \<Rightarrow> None
                      | Some u \<Rightarrow> cons_fst u (scan_string (drop 4 r)))
                else (case unescape e of
                        None \<Rightarrow> None
                      | Some u \<Rightarrow> cons_fst u (scan_string r))))"

definition scan_digits :: "jsstring \<Rightarrow> (jsstring \<times> jsstring) option" where
  "scan_digits s =
     (if takeWhile is_digit s = [] then None
      else Some (takeWhile is_digit s, dropWhile is_digit s))"

definition scan_int :: "jsstring \<Rightarrow> (jsstring \<times> jsstring) option" where
  "scan_int s =
     (case s of
        [] \<Rightarrow> None
      | c # cs \<Rightarrow> if c = 0x30 then Some ([c], cs) else scan_digits s)"

definition scan_frac :: "jsstring \<Rightarrow> (jsstring \<times> jsstring) option" where
  "scan_frac s =
     (case s of
        [] \<Rightarrow> Some ([], s)
      | c # cs \<Rightarrow>
          if c = 0x2E then cons_fst c (scan_digits cs) else Some ([], s))"

definition scan_exp :: "jsstring \<Rightarrow> (jsstring \<times> jsstring) option" where
  "scan_exp s =
     (case s of
        [] \<Rightarrow> Some ([], s)
      | c # cs \<Rightarrow>
          if c = 0x65 \<or> c = 0x45
          then (case cs of
                  [] \<Rightarrow> None
                | d # ds \<Rightarrow>
                    if d = 0x2B \<or> d = 0x2D
                    then cons_fst c (cons_fst d (scan_digits ds))
                    else cons_fst c (scan_digits cs))
          else Some ([], s))"

definition scan_number :: "jsstring \<Rightarrow> (jsstring \<times> jsstring) option" where
  "scan_number s =
     (let (sign, s0) = (case s of [] \<Rightarrow> ([], s) | c # cs \<Rightarrow> if c = 0x2D then ([c], cs) else ([], s))
      in case scan_int s0 of
           None \<Rightarrow> None
         | Some (i, s1) \<Rightarrow>
             (case scan_frac s1 of
                None \<Rightarrow> None
              | Some (f, s2) \<Rightarrow>
                  (case scan_exp s2 of
                     None \<Rightarrow> None
                   | Some (e, s3) \<Rightarrow> Some (sign @ i @ f @ e, s3))))"

text \<open>Every scanning function returns a rest that is shorter than its input.\<close>

lemma cons_fst_Some: "cons_fst x r = Some (xs, y) \<Longrightarrow> \<exists>xs'. r = Some (xs', y)"
  by (cases r) (auto simp: cons_fst_def)

lemma scan_string_length: "scan_string s = Some (v, r) \<Longrightarrow> length r < length s"
proof (induction s arbitrary: v r rule: scan_string.induct)
  case 1
  then show ?case by simp
next
  case (2 c cs)
  show ?case
  proof (cases "c = 0x22")
    case True
    with 2(4) show ?thesis by simp
  next
    case q: False
    show ?thesis
    proof (cases "c \<noteq> 0x5C")
      case True
      with q 2(4) obtain v' where "scan_string cs = Some (v', r)"
        by (auto split: if_splits dest: cons_fst_Some)
      with 2(1) q True have "length r < length cs"
        by (cases "c < 0x20") (use 2(4) in auto)
      then show ?thesis by simp
    next
      case False
      then have b: "c = 0x5C" by simp
      then have nc: "\<not> c < 0x20" by simp
      with 2(4) q b obtain e rr where cs: "cs = e # rr"
        by (cases cs) auto
      show ?thesis
      proof (cases "e = 0x75")
        case True
        with 2(4) q b nc cs obtain u v' where
          u: "unicode_escape (take 4 rr) = Some u" and s: "scan_string (drop 4 rr) = Some (v', r)"
          by (auto split: option.splits dest: cons_fst_Some)
        from 2(2) [OF q nc _ cs True u s] b have "length r < length (drop 4 rr)" by simp
        with cs show ?thesis by simp
      next
        case False
        with 2(4) q b nc cs obtain u v' where
          u: "unescape e = Some u" and s: "scan_string rr = Some (v', r)"
          by (auto split: option.splits dest: cons_fst_Some)
        from 2(3) [OF q nc _ cs False u s] b have "length r < length rr" by simp
        with cs show ?thesis by simp
      qed
    qed
  qed
qed

lemma scan_digits_length: "scan_digits s = Some (v, r) \<Longrightarrow> length r < length s"
proof -
  assume a: "scan_digits s = Some (v, r)"
  then have ne: "takeWhile is_digit s \<noteq> []" and r: "r = dropWhile is_digit s"
    by (auto simp: scan_digits_def split: if_splits)
  have "length (takeWhile is_digit s) + length (dropWhile is_digit s) = length s"
    by (metis length_append takeWhile_dropWhile_id)
  with ne r show ?thesis by (cases "takeWhile is_digit s") auto
qed

lemma scan_int_length: "scan_int s = Some (v, r) \<Longrightarrow> length r < length s"
  by (auto simp: scan_int_def split: list.splits if_splits dest: scan_digits_length)

lemma scan_frac_length: "scan_frac s = Some (v, r) \<Longrightarrow> length r \<le> length s"
  by (auto simp: scan_frac_def split: list.splits if_splits dest!: cons_fst_Some scan_digits_length)

lemma scan_exp_length: "scan_exp s = Some (v, r) \<Longrightarrow> length r \<le> length s"
  by (auto simp: scan_exp_def split: list.splits if_splits dest!: cons_fst_Some scan_digits_length)

lemma scan_number_length: "scan_number s = Some (v, r) \<Longrightarrow> length r < length s"
  by (auto simp: scan_number_def split: list.splits if_splits option.splits
           dest!: scan_int_length scan_frac_length scan_exp_length)

text \<open>The scanner proper. Literals and numbers are scanned with the longest match.\<close>

definition emit :: "token \<Rightarrow> token list option \<Rightarrow> token list option" where
  "emit t r = map_option ((#) t) r"

function lex :: "jsstring \<Rightarrow> token list option" where
  "lex [] = Some []"
| "lex (c # cs) =
     (if json_space c then lex cs
      else if c = 0x7B then emit LBrace (lex cs)
      else if c = 0x7D then emit RBrace (lex cs)
      else if c = 0x5B then emit LBracket (lex cs)
      else if c = 0x5D then emit RBracket (lex cs)
      else if c = 0x3A then emit Colon (lex cs)
      else if c = 0x2C then emit Comma (lex cs)
      else if c = 0x22
      then (case scan_string cs of
              None \<Rightarrow> None
            | Some (s, r) \<Rightarrow> emit (TString s) (lex r))
      else if c = 0x2D \<or> is_digit c
      then (case scan_number (c # cs) of
              None \<Rightarrow> None
            | Some (n, r) \<Rightarrow> emit (TNumber n) (lex r))
      else if startsWith (c # cs) (js ''true'') then emit TTrue (lex (drop 4 (c # cs)))
      else if startsWith (c # cs) (js ''false'') then emit TFalse (lex (drop 5 (c # cs)))
      else if startsWith (c # cs) (js ''null'') then emit TNull (lex (drop 4 (c # cs)))
      else None)"
  by pat_completeness auto
termination
  by (relation "measure length")
     (auto dest: scan_string_length scan_number_length)

text \<open>
  The parser reads the tokens one at a time. The stack holds the arrays and objects that are
  still open, innermost first, each with its members so far in reverse; the phase says what
  may come next.
\<close>

datatype frame =
    InArray "json list"
  | InObject "(jsstring \<times> json) list" "jsstring option"

datatype phase =
    Value | ValueOrEnd | KeyOrEnd | Key | AfterKey | AfterValue | Done json | Failed

type_synonym pstate = "frame list \<times> phase"

fun deliver :: "json \<Rightarrow> frame list \<Rightarrow> pstate" where
  "deliver v [] = ([], Done v)"
| "deliver v (InArray acc # st) = (InArray (v # acc) # st, AfterValue)"
| "deliver v (InObject kvs (Some k) # st) = (InObject ((k, v) # kvs) None # st, AfterValue)"
| "deliver v (InObject kvs None # st) = (InObject kvs None # st, Failed)"

fun begin_value :: "frame list \<Rightarrow> token \<Rightarrow> pstate" where
  "begin_value st LBracket = (InArray [] # st, ValueOrEnd)"
| "begin_value st LBrace = (InObject [] None # st, KeyOrEnd)"
| "begin_value st (TString s) = deliver (JString s) st"
| "begin_value st (TNumber n) = deliver (JNumber n) st"
| "begin_value st TTrue = deliver (JBool True) st"
| "begin_value st TFalse = deliver (JBool False) st"
| "begin_value st TNull = deliver JNull st"
| "begin_value st _ = (st, Failed)"

fun end_array :: "frame list \<Rightarrow> pstate" where
  "end_array (InArray acc # st) = deliver (JArray (rev acc)) st"
| "end_array st = (st, Failed)"

fun end_object :: "frame list \<Rightarrow> pstate" where
  "end_object (InObject kvs None # st) = deliver (JObject (rev kvs)) st"
| "end_object st = (st, Failed)"

fun begin_key :: "frame list \<Rightarrow> token \<Rightarrow> pstate" where
  "begin_key (InObject kvs None # st) (TString k) = (InObject kvs (Some k) # st, AfterKey)"
| "begin_key st _ = (st, Failed)"

fun next_member :: "frame list \<Rightarrow> pstate" where
  "next_member (InArray acc # st) = (InArray acc # st, Value)"
| "next_member (InObject kvs None # st) = (InObject kvs None # st, Key)"
| "next_member st = (st, Failed)"

fun step :: "pstate \<Rightarrow> token \<Rightarrow> pstate" where
  "step (st, Value) t = begin_value st t"
| "step (st, ValueOrEnd) t = (if t = RBracket then end_array st else begin_value st t)"
| "step (st, KeyOrEnd) t = (if t = RBrace then end_object st else begin_key st t)"
| "step (st, Key) t = begin_key st t"
| "step (st, AfterKey) t = (if t = Colon then (st, Value) else (st, Failed))"
| "step (st, AfterValue) t =
     (if t = Comma then next_member st
      else if t = RBracket then end_array st
      else if t = RBrace then end_object st
      else (st, Failed))"
| "step (st, Done v) t = (st, Failed)"
| "step (st, Failed) t = (st, Failed)"

definition parse_tokens :: "token list \<Rightarrow> json option" where
  "parse_tokens ts =
     (case foldl step ([], Value) ts of
        (_, Done v) \<Rightarrow> Some v
      | _ \<Rightarrow> None)"

definition JSON_parse :: "jsstring \<Rightarrow> json option" where
  "JSON_parse s = (case lex s of None \<Rightarrow> None | Some ts \<Rightarrow> parse_tokens ts)"

section \<open>Requests, responses and the outbound call\<close>

text \<open>
  The request body is read at the types of the documented interface: every field is either
  absent (\<^verbatim>\<open>undefined\<close>, here \<open>None\<close>) or a string, \<^verbatim>\<open>existingShips\<close> an array of strings.
  \<^verbatim>\<open>req.body\<close> itself may be absent. \<open>http_method\<close> is \<^verbatim>\<open>req.method\<close>.
\<close>

record body =
  parseType :: "jsstring option"
  content :: "jsstring option"
  imageBase64 :: "jsstring option"
  mimeType :: "jsstring option"
  existingShips :: "jsstring list option"

record request =
  http_method :: jsstring
  body :: "body option"

text \<open>
  What the handler can throw inside its \<^verbatim>\<open>try\<close> block. The \<^verbatim>\<open>message\<close> of a rejected
  \<^verbatim>\<open>fetch\<close> is given by the environment; the wording of the engine's own errors is left open.
\<close>

datatype thrown = TypeError | SyntaxError | FetchError jsstring

text \<open>
  The response bodies the handler writes:
  \<^item> \<open>NoBody\<close> is \<^verbatim>\<open>res.status(s).end()\<close>;
  \<^item> \<open>Failure e NoExtra\<close> is \<^verbatim>\<open>{ error: e }\<close>, \<open>Failure e (Details d)\<close> is
    \<^verbatim>\<open>{ error: e, details: d }\<close>, \<open>Failure e (Thrown x)\<close> is \<^verbatim>\<open>{ error: e, message: x.message }\<close>;
  \<^item> \<open>RawFallback r m\<close> is \<^verbatim>\<open>{ success: true, raw: r, parsed: null, message: m }\<close>;
  \<^item> \<open>Structured v\<close> is \<^verbatim>\<open>{ success: true, parsed: v }\<close>.
\<close>

datatype extra = NoExtra | Details jsstring | Thrown thrown

datatype payload =
    NoBody
  | Failure jsstring extra
  | RawFallback "json option" jsstring
  | Structured json

record response =
  status :: nat
  payload :: payload

text \<open>The request sent to \<^verbatim>\<open>https://api.anthropic.com/v1/messages\<close> and what comes back.\<close>

datatype block =
    ImageBlock jsstring "jsstring option"
  | TextBlock jsstring

datatype message_content =
    Plain "jsstring option"
  | Blocks "block list"

datatype message = Message jsstring message_content

record outbound =
  x_api_key :: "jsstring option"
  anthropic_version :: jsstring
  model :: jsstring
  max_tokens :: nat
  system :: jsstring
  messages :: "message list"

datatype fetch_result =
    Rejected jsstring
  | Resolved nat jsstring

definition ok :: "nat \<Rightarrow> bool" where
  "ok st \<longleftrightarrow> 200 \<le> st \<and> st \<le> 299"

section \<open>Truthiness and coercions\<close>

definition truthy :: "jsstring option \<Rightarrow> bool" where
  "truthy v \<longleftrightarrow> v \<noteq> None \<and> v \<noteq> Some []"

text \<open>\<^verbatim>\<open>v || d\<close> with a string literal \<open>d\<close>.\<close>

definition or_else :: "jsstring option \<Rightarrow> jsstring \<Rightarrow> jsstring" where
  "or_else v d = (case v of None \<Rightarrow> d | Some s \<Rightarrow> if s = [] then d else s)"

text \<open>\<^verbatim>\<open>${v}\<close> inside a template literal.\<close>

definition to_string :: "jsstring option \<Rightarrow> jsstring" where
  "to_string v = (case v of None \<Rightarrow> js ''undefined'' | Some s \<Rightarrow> s)"

text \<open>\<^verbatim>\<open>o.k\<close> for a value that came out of \<^verbatim>\<open>JSON.parse\<close> and a name \<open>k\<close> that no prototype defines.\<close>

definition get :: "json \<Rightarrow> jsstring \<Rightarrow> thrown + json option" where
  "get v k =
     (case v of
        JNull \<Rightarrow> Inl TypeError
      | JObject kvs \<Rightarrow> Inr (map_of (rev kvs) k)
      | _ \<Rightarrow> Inr None)"

section \<open>The literal texts\<close>

text \<open>
  The handler of \<^verbatim>\<open>api/analyze.js\<close> exists in two revisions with the same control flow and a
  different wording of messages and prompts (the later one also writes the year into its
  prompts), so the model takes the wording as a parameter. \<open>analyze_texts\<close> is the wording of
  \<^verbatim>\<open>api/analyze.js\<close>, letter by letter.
\<close>

record texts =
  key_missing :: jsstring
  email_system :: jsstring
  ships_intro :: jsstring
  tally_system :: jsstring
  tally_intro :: jsstring
  api_error :: jsstring
  no_text :: jsstring

definition email_prompt :: jsstring where
  \<open>email_prompt =
     join [0x0A]
      [js ''You are an expert shipping operations assistant. Analyze emails, WhatsApp messages, and communications about vessel operations.'',
       [],
       js ''Extract ANY relevant shipping information you find. Be flexible with formats - the data can come in many variations and languages (English, Hebrew, Chinese, etc.).'',
       [],
       js ''Return valid JSON only (no markdown, no explanation):'',
       [],
       js ''{'',
       js ''    "vesselName": "string or null - the ship/vessel name (look for MV, M/V, M.V, VSL, VESSEL, ship names)",'',
       js ''    "eta": "string or null - Expected Time of Arrival (any date/time format found)",'',
       js ''    "etb": "string or null - Expected Time of Berthing",'',
       js ''    "etd": "string or null - Expected Time of Departure",'',
       js ''    "ets": "string or null - Expected Time of Sailing",'',
       js ''    "port": "string or null - port name (Ashdod, Haifa, Shipyards, etc. - handle typos like 'Ahsdod')",'',
       js ''    "status": "string or null - vessel status if mentioned",'',
       js ''    "cargo": {'',
       js ''        "type": "string or null - cargo type",'',
       js ''        "quantity": "number or null",'',
       js ''        "weight": "number or null - in MT"'',
       js ''    },'',
       js ''    "services": {'',
       js ''        "water": "boolean - fresh water supply needed",'',
       js ''        "bunker": "boolean - fuel/bunker needed",'',
       js ''        "crewChange": "boolean - crew change mentioned",'',
       js ''        "provisions": "boolean - provisions/stores needed",'',
       js ''        "sludge": "boolean - sludge disposal",'',
       js ''        "repairs": "boolean - any repairs mentioned",'',
       js ''        "other": ["array of other services mentioned"]'',
       js ''    },'',
       js ''    "agent": "string or null - agent name if mentioned",'',
       js ''    "notes": ["array of important notes, instructions, or remarks"],'',
       js ''    "contacts": ['',
       js ''        {'',
       js ''            "name": "string",'',
       js ''            "role": "string (captain, agent, operator, etc.)",'',
       js ''            "email": "string or null",'',
       js ''            "phone": "string or null"'',
       js ''        }'',
       js ''    ],'',
       js ''    "confidence": "high/medium/low - how confident you are in the extraction"'',
       js ''}'',
       [],
       js ''Rules:'',
       js ''- Extract EVERYTHING relevant, even partial information'',
       js ''- Handle typos and variations (Ahsdod = Ashdod, etc.)'',
       js ''- Dates can be in any format - preserve as found'',
       js ''- Look for vessel names after: MV, M/V, M.V., M.V, VSL, VESSEL, master of, captain of'',
       js ''- Israeli ports: Ashdod, Haifa, Haifa Bay Port, Shipyards Port, '' @ [0x05DE, 0x05E1, 0x05E4, 0x05E0, 0x05D5, 0x05EA] @ js '', '' @ [0x05E0, 0x05DE, 0x05DC] @ js '' '' @ [0x05D4, 0x05DE, 0x05E4, 0x05E8, 0x05E5],
       js ''- Services: water, fresh water, bunker, fuel, crew change, provisions, stores, sludge, repairs'',
       js ''- Return ONLY valid JSON'']\<close>

definition tally_prompt :: jsstring where
  \<open>tally_prompt =
     join [0x0A]
      [js ''You are an expert at analyzing shipping tally reports and discharge documents.'',
       [],
       js ''Extract discharge/loading operation data. Handle various formats and languages.'',
       [],
       js ''Return valid JSON only (no markdown, no explanation):'',
       [],
       js ''{'',
       js ''    "date": "DD/MM/YYYY or as found",'',
       js ''    "shifts": ['',
       js ''        {'',
       js ''            "name": "Shift 1/2/3 or time period",'',
       js ''            "time": "time range if specified",'',
       js ''            "gangs": "gang numbers if specified",'',
       js ''            "cargo": ['',
       js ''                {'',
       js ''                    "type": "cargo type",'',
       js ''                    "quantity": 0,'',
       js ''                    "weight": 0'',
       js ''                }'',
       js ''            ],'',
       js ''            "quantity": 0,'',
       js ''            "weight": 0'',
       js ''        }'',
       js ''    ],'',
       js ''    "totalQuantity": 0,'',
       js ''    "totalWeight": 0,'',
       js ''    "remarks": ["all remarks, events, stoppages, delays, weather issues"],'',
       js ''    "vesselName": "vessel name if found",'',
       js ''    "port": "port if found"'',
       js ''}'',
       [],
       js ''Rules:'',
       js ''- Weights in MT (metric tons)'',
       js ''- Extract ALL remarks and events'',
       js ''- If no shifts structure, create one "Total" entry'',
       js ''- Return ONLY valid JSON'']\<close>

definition analyze_texts :: texts where
  "analyze_texts =
     \<lparr>key_missing =
        js ''Claude API key not configured. Add ANTHROPIC_API_KEY to Vercel Environment Variables.'',
      email_system = email_prompt,
      ships_intro =
        [0x0A, 0x0A] @ js ''Existing ships in the system (try to match vessel names): '',
      tally_system = tally_prompt,
      tally_intro = js ''Analyze this tally/discharge report:'' @ [0x0A, 0x0A],
      api_error = js ''Claude API error'',
      no_text = js ''No text response from Claude''\<rparr>"

section \<open>The handler\<close>

text \<open>Lines 26 to 129: the prompts for the parse type, \<open>None\<close> where the handler answers 400.\<close>

definition build_prompts :: "texts \<Rightarrow> body \<Rightarrow> (jsstring \<times> jsstring option) option" where
  "build_prompts t b =
     (if parseType b = Some (js ''email'') \<or> parseType b = Some (js ''message'')
      then Some (email_system t @
                   (case existingShips b of
                      None \<Rightarrow> []
                    | Some ships \<Rightarrow>
                        if 0 < length ships then ships_intro t @ join (js '', '') ships else []),
                 content b)
      else if parseType b = Some (js ''tally'')
      then Some (tally_system t, Some (tally_intro t @ to_string (content b)))
      else None)"

text \<open>Lines 131 to 164: the messages array, \<open>None\<close> where the handler answers 400.\<close>

definition build_messages :: "body \<Rightarrow> jsstring option \<Rightarrow> message list option" where
  "build_messages b userPrompt =
     (if truthy (imageBase64 b)
      then Some [Message (js ''user'')
                   (Blocks [ImageBlock (or_else (mimeType b) (js ''image/jpeg'')) (imageBase64 b),
                            TextBlock (or_else userPrompt
                                    (js ''Extract all shipping information from this image. Return JSON only.''))])]
      else if truthy (content b)
      then Some [Message (js ''user'') (Plain userPrompt)]
      else None)"

text \<open>\<^verbatim>\<open>data.content.find(c => c.type === 'text')\<close>\<close>

fun find_text :: "json list \<Rightarrow> thrown + json option" where
  "find_text [] = Inr None"
| "find_text (c # cs) =
     (case get c (js ''type'') of
        Inl e \<Rightarrow> Inl e
      | Inr ty \<Rightarrow> if ty = Some (JString (js ''text'')) then Inr (Some c) else find_text cs)"

definition fallback :: "json option \<Rightarrow> response" where
  "fallback raw =
     \<lparr>status = 200,
      payload = RawFallback raw (js ''Could not parse as JSON, returning raw analysis'')\<rparr>"

text \<open>Lines 199 to 221, for a reply whose \<^verbatim>\<open>text\<close> is the string \<open>raw\<close>.\<close>

definition normalize :: "jsstring \<Rightarrow> response" where
  "normalize raw =
     (case JSON_parse (strip_fences (trim raw)) of
        None \<Rightarrow> fallback (Some (JString raw))
      | Some parsedData \<Rightarrow> \<lparr>status = 200, payload = Structured parsedData\<rparr>)"

text \<open>
  The same lines for any \<^verbatim>\<open>textContent.text\<close>: on anything but a string the call of \<^verbatim>\<open>trim\<close>
  throws inside the inner \<^verbatim>\<open>try\<close>, whose \<^verbatim>\<open>catch\<close> answers with the fallback.
\<close>

definition normalize_text :: "json option \<Rightarrow> response" where
  "normalize_text text = (case text of Some (JString raw) \<Rightarrow> normalize raw | _ \<Rightarrow> fallback text)"

text \<open>The outer \<^verbatim>\<open>catch\<close>, lines 223 to 229.\<close>

definition server_error :: "thrown \<Rightarrow> response" where
  "server_error e = \<lparr>status = 500, payload = Failure (js ''Server error'') (Thrown e)\<rparr>"

text \<open>Lines 182 to 221: from the outcome of \<^verbatim>\<open>fetch\<close> to the response.\<close>

definition receive :: "texts \<Rightarrow> fetch_result \<Rightarrow> response" where
  "receive t r =
     (case r of
        Rejected msg \<Rightarrow> server_error (FetchError msg)
      | Resolved st bodyText \<Rightarrow>
          if \<not> ok st
          then \<lparr>status = st, payload = Failure (api_error t) (Details bodyText)\<rparr>
          else (case JSON_parse bodyText of
                  None \<Rightarrow> server_error SyntaxError
                | Some data \<Rightarrow>
                    (case get data (js ''content'') of
                       Inl e \<Rightarrow> server_error e
                     | Inr (Some (JArray cs)) \<Rightarrow>
                         (case find_text cs of
                            Inl e \<Rightarrow> server_error e
                          | Inr None \<Rightarrow> \<lparr>status = 500, payload = Failure (no_text t) NoExtra\<rparr>
                          | Inr (Some textContent) \<Rightarrow>
                              (case get textContent (js ''text'') of
                                 Inl e \<Rightarrow> server_error e
                               | Inr text \<Rightarrow> normalize_text text))
                     | Inr _ \<Rightarrow> server_error TypeError)))"

text \<open>
  One run of the handler: its response, the values of \<^verbatim>\<open>systemPrompt\<close> and \<^verbatim>\<open>userPrompt\<close> when
  it returned (\<open>None\<close> when it returned before they were declared), and the request it sent
  out, if any. \<open>apiKey\<close> is \<^verbatim>\<open>process.env.ANTHROPIC_API_KEY\<close> and \<open>fetch\<close> is the outcome of the
  outbound call as a function of what is sent.
\<close>

record run =
  response :: response
  prompts :: "(jsstring \<times> jsstring option) option"
  fetched :: "outbound option"

definition finish :: "response \<Rightarrow> (jsstring \<times> jsstring option) option \<Rightarrow> run" where
  "finish r p = \<lparr>response = r, prompts = p, fetched = None\<rparr>"

definition handler :: "texts \<Rightarrow> jsstring option \<Rightarrow> (outbound \<Rightarrow> fetch_result) \<Rightarrow> request \<Rightarrow> run" where
  \<open>handler t apiKey fetch req =
     (if http_method req = js ''OPTIONS''
      then finish \<lparr>status = 200, payload = NoBody\<rparr> None
      else if http_method req \<noteq> js ''POST''
      then finish \<lparr>status = 405, payload = Failure (js ''Method not allowed'') NoExtra\<rparr> None
      else if \<not> truthy apiKey
      then finish \<lparr>status = 500, payload = Failure (key_missing t) NoExtra\<rparr> None
      else (case body req of
              None \<Rightarrow> finish (server_error TypeError) None
            | Some b \<Rightarrow>
                (case build_prompts t b of
                   None \<Rightarrow>
                     finish \<lparr>status = 400,
                             payload = Failure (js ''Invalid parseType. Use "email", "message", or "tally"'') NoExtra\<rparr>
                       (Some ([], Some []))
                 | Some (systemPrompt, userPrompt) \<Rightarrow>
                     (case build_messages b userPrompt of
                        None \<Rightarrow>
                          finish \<lparr>status = 400,
                                  payload = Failure (js ''Provide either text content or image'') NoExtra\<rparr>
                            (Some (systemPrompt, userPrompt))
                      | Some msgs \<Rightarrow>
                          (let out = \<lparr>x_api_key = apiKey,
                                      anthropic_version = js ''2023-06-01'',
                                      model = js ''claude-sonnet-4-20250514'',
                                      max_tokens = 4096,
                                      system = systemPrompt,
                                      messages = msgs\<rparr>
                           in \<lparr>response = receive t (fetch out),
                               prompts = Some (systemPrompt, userPrompt),
                               fetched = Some out\<rparr>)))))\<close>

text \<open>
  The three outcomes the interface documents: a failure with a status outside 200 to 299, the
  raw fallback and the structured success, both with status 200.
\<close>

definition extraction_result :: "response \<Rightarrow> bool" where
  "extraction_result r =
     (case payload r of
        NoBody \<Rightarrow> False
      | Failure e x \<Rightarrow> \<not> ok (status r)
      | RawFallback raw m \<Rightarrow> status r = 200
      | Structured v \<Rightarrow> status r = 200)"

section \<open>Evaluation and basic facts\<close>

lemmas string_eval = js_def startsWith_def fence_def open_tag_def optional_def is_space_def trim_def

lemmas json_eval = JSON_parse_def parse_tokens_def json_space_def is_digit_def emit_def
  scan_number_def scan_int_def scan_frac_def scan_exp_def scan_digits_def cons_fst_def
  unescape_def unicode_escape_def hex_digit_def

lemma backtick_not_space: "\<not> is_space 0x60"
  by (simp add: is_space_def)

lemma lex_backtick: "lex (0x60 # cs) = None"
  by (simp add: string_eval json_eval)

lemma JSON_parse_empty: "JSON_parse [] = None"
  by (simp add: json_eval)

lemma JSON_parse_backtick: "JSON_parse (0x60 # cs) = None"
  by (simp add: JSON_parse_def lex_backtick del: lex.simps)

lemma POST_not_OPTIONS: "js ''POST'' \<noteq> js ''OPTIONS''"
  by (simp add: js_def)

lemma mode_names_distinct:
  "js ''email'' \<noteq> js ''tally''" "js ''message'' \<noteq> js ''tally''"
  by (simp_all add: js_def)

lemma error_texts_distinct:
  \<open>js ''Invalid parseType. Use "email", "message", or "tally"''
     \<noteq> js ''Provide either text content or image''\<close>
  by (simp add: js_def)

lemma valid_parseType:
  "build_prompts t b \<noteq> None \<longleftrightarrow>
     parseType b = Some (js ''email'') \<or> parseType b = Some (js ''message'')
     \<or> parseType b = Some (js ''tally'')"
  by (simp add: build_prompts_def)

section \<open>The fence patterns\<close>

lemma replace_open_tag:
  "replace_open (open_tag @ b) = replace_open (optional 0x0A (optional 0x6E b))"
  by (simp add: open_tag_def startsWith_def)

lemma length_open_tag: "length open_tag = 6"
  by (simp add: open_tag_def)

lemma take_open_tag: "take 5 (a @ open_tag @ b) = take 5 (a @ take 5 open_tag)"
  by (simp add: length_open_tag min_def)

lemma startsWith_open_tag_prefix:
  "startsWith (x # a @ open_tag @ b) open_tag = startsWith (x # a @ take 5 open_tag) open_tag"
proof -
  have "take 6 (x # a @ open_tag @ b) = x # take 5 (a @ open_tag @ b)" by simp
  moreover have "take 6 (x # a @ take 5 open_tag) = x # take 5 (a @ take 5 open_tag)" by simp
  ultimately have "take 6 (x # a @ open_tag @ b) = take 6 (x # a @ take 5 open_tag)"
    using take_open_tag [of a b] by simp
  then show ?thesis by (simp only: startsWith_def length_open_tag)
qed

text \<open>
  The first tagged marker of a text: no marker starts in \<open>a\<close>, also none that would run into
  the marker that follows. Everything in front of it is kept and the scan goes on after it.
\<close>

lemma replace_open_leftmost:
  "\<not> occurs open_tag (a @ take 5 open_tag) \<Longrightarrow>
     replace_open (a @ open_tag @ b) = a @ replace_open (optional 0x0A (optional 0x6E b))"
proof (induction a)
  case Nil
  show ?case using replace_open_tag by simp
next
  case (Cons x a)
  from Cons.prems have "\<not> startsWith (x # a @ take 5 open_tag) open_tag"
    and rest: "\<not> occurs open_tag (a @ take 5 open_tag)"
    by simp_all
  then have "\<not> startsWith (x # a @ open_tag @ b) open_tag"
    using startsWith_open_tag_prefix [of x a b] by simp
  with Cons.IH [OF rest] show ?case by simp
qed

lemma replace_open_id: "\<not> occurs open_tag t \<Longrightarrow> replace_open t = t"
  by (induction t) auto

lemma replace_close_fence: "list_all is_space w \<Longrightarrow> replace_close (fence @ w) = []"
  by (simp add: fence_def startsWith_def)

text \<open>Two code units after any place in front of a fence, a backtick is still to come.\<close>

lemma fence_in_drop: "0x60 \<in> set (drop 2 (a @ fence @ w))"
proof (cases a)
  case Nil
  then show ?thesis by (simp add: fence_def)
next
  case (Cons x xs)
  show ?thesis
  proof (cases xs)
    case Nil
    with Cons show ?thesis by (simp add: fence_def)
  next
    case (Cons y ys)
    with \<open>a = x # xs\<close> show ?thesis by (simp add: fence_def)
  qed
qed

lemma replace_close_trailing:
  "list_all is_space w \<Longrightarrow> replace_close (a @ fence @ w) = a"
proof (induction a)
  case Nil
  then show ?case using replace_close_fence by simp
next
  case (Cons x a)
  have "\<not> list_all is_space (drop 2 (a @ fence @ w))"
    using fence_in_drop [of a w] backtick_not_space by (auto simp: list_all_iff)
  with Cons show ?case by simp
qed

lemma replace_close_id: "\<not> closes t \<Longrightarrow> replace_close t = t"
  by (induction t) auto

lemma trim_keeps_head:
  assumes "\<not> is_space c"
  shows "\<exists>ys. trim (c # xs) = c # ys"
proof -
  have "dropWhile is_space (c # xs) = c # xs" using assms by simp
  moreover have "\<exists>zs. dropWhile is_space (rev xs @ [c]) = zs @ [c]"
  proof (cases "\<forall>x\<in>set xs. is_space x")
    case True
    with assms have "dropWhile is_space (rev xs @ [c]) = [] @ [c]"
      by (simp add: dropWhile_append)
    then show ?thesis by blast
  next
    case False
    then have "dropWhile is_space (rev xs @ [c]) = dropWhile is_space (rev xs) @ [c]"
      by (simp add: dropWhile_append)
    then show ?thesis by blast
  qed
  then obtain zs where "dropWhile is_space (rev xs @ [c]) = zs @ [c]" by blast
  ultimately have "trim (c # xs) = c # rev zs" by (simp add: trim_def)
  then show ?thesis by blast
qed

lemma replace_close_head:
  "replace_close (c # cs) = [] \<or> (\<exists>ys. replace_close (c # cs) = c # ys)"
  by simp

text \<open>
  A text that starts with a fence but not with \<^verbatim>\<open>```jso\<close> keeps its first backtick through
  both replacements, unless nothing is left of it; either way it is not JSON.
\<close>

lemma untagged_fence_unparsable:
  assumes "startsWith t fence" and "\<not> startsWith t open_tag"
  shows "JSON_parse (strip_fences t) = None"
proof -
  from assms(1) obtain cs where t: "t = 0x60 # cs"
    by (cases t) (auto simp: startsWith_def fence_def)
  with assms(2) have "replace_open t = 0x60 # replace_open cs" by simp
  then consider "replace_close (replace_open t) = []"
    | ys where "replace_close (replace_open t) = 0x60 # ys"
    using replace_close_head [of "0x60" "replace_open cs"] by auto
  then have "JSON_parse (trim (replace_close (replace_open t))) = None"
  proof cases
    case 1
    then show ?thesis by (simp add: trim_def JSON_parse_empty)
  next
    case 2
    with trim_keeps_head [OF backtick_not_space, of ys] show ?thesis
      by (auto simp: JSON_parse_backtick)
  qed
  with assms(1) show ?thesis by (simp add: strip_fences_def)
qed

lemma strip_fences_tagged:
  "strip_fences (open_tag @ r) =
     trim (replace_close (replace_open (optional 0x0A (optional 0x6E r))))"
proof -
  have "startsWith (open_tag @ r) fence"
    by (simp add: startsWith_def open_tag_def fence_def)
  then show ?thesis by (simp add: strip_fences_def replace_open_tag)
qed

lemma strip_fences_guard: "\<not> startsWith v fence \<Longrightarrow> strip_fences v = v"
  by (simp add: strip_fences_def)

section \<open>The normalizer\<close>

text \<open>
  C1. A reply wrapped in fences, with or without a \<^verbatim>\<open>json\<close> tag, is parsed after the fences are
  stripped. The handler does so for the tagged reply of the specification's example, which
  yields the structured \<^verbatim>\<open>{a:1}\<close>. For the same reply without the tag the opening pattern
  finds no \<^verbatim>\<open>```jso\<close>, the opening fence stays, the parse fails and the reply comes back as the
  raw fallback.
\<close>

theorem untagged_fence_reply_falls_back:
  \<open>normalize (js ''```json\<newline>{"a":1}\<newline>```'') =
     \<lparr>status = 200, payload = Structured (JObject [(js ''a'', JNumber (js ''1''))])\<rparr>
   \<and> normalize (js ''```\<newline>{"a":1}\<newline>```'') =
     \<lparr>status = 200,
      payload = RawFallback (Some (JString (js ''```\<newline>{"a":1}\<newline>```'')))
                  (js ''Could not parse as JSON, returning raw analysis'')\<rparr>\<close>
  by (simp add: normalize_def fallback_def strip_fences_def string_eval json_eval)

text \<open>The same for every reply whose trimmed text starts with a fence that is not tagged.\<close>

lemma untagged_fence_is_raw_fallback:
  assumes "startsWith (trim raw) fence" and "\<not> startsWith (trim raw) open_tag"
  shows "normalize raw = fallback (Some (JString raw))"
  using untagged_fence_unparsable [OF assms] by (simp add: normalize_def)

text \<open>
  C3. For a text that begins with a tagged fence (\<^verbatim>\<open>```jso\<close>, an optional \<^verbatim>\<open>n\<close>, an optional line
  feed) the step removes that marker, runs the first replacement over the rest, runs the second
  replacement over the result and trims. The first replacement is global: it leaves a text
  without tagged marker as it is, untagged fences included, and it removes a tagged marker
  wherever the scan finds one, keeping all that stands in front of it (untagged fences too)
  and scanning on after it. The second replacement removes one fence, the one that has only
  white space between it and the end of what the first replacement left, and nothing where
  there is no such fence. A text that does not begin with a fence is not changed.
\<close>

theorem fence_patterns_reach:
  "strip_fences (open_tag @ r) =
     trim (replace_close (replace_open (optional 0x0A (optional 0x6E r))))
   \<and> (\<not> occurs open_tag t \<longrightarrow> replace_open t = t)
   \<and> (\<not> occurs open_tag (a @ take 5 open_tag) \<longrightarrow>
        replace_open (a @ open_tag @ b) = a @ replace_open (optional 0x0A (optional 0x6E b)))
   \<and> (list_all is_space w \<longrightarrow> replace_close (c @ fence @ w) = c)
   \<and> (\<not> closes u \<longrightarrow> replace_close u = u)
   \<and> (\<not> startsWith v fence \<longrightarrow> strip_fences v = v)"
  using strip_fences_tagged [of r] replace_open_id [of t] replace_open_leftmost [of a b]
    replace_close_trailing [of w c] replace_close_id [of u] strip_fences_guard [of v]
  by simp

text \<open>
  An instance of each part. The third is a tagged marker that follows an untagged fence and a
  blank: the marker goes and the fence stays. The fourth is what the second replacement then
  does to that fence: it has only the blank after it, so it goes as well.
\<close>

theorem fence_patterns_reach_witness:
  \<open>strip_fences (open_tag @ js ''n\<newline>{}\<newline>``` ```json'') =
     trim (replace_close (replace_open
       (optional 0x0A (optional 0x6E (js ''n\<newline>{}\<newline>``` ```json'')))))
   \<and> \<not> occurs open_tag (js ''{"a":"```"}'')
   \<and> replace_open (js ''{"a":"```"}'') = js ''{"a":"```"}''
   \<and> \<not> occurs open_tag (js ''{}\<newline>``` '' @ take 5 open_tag)
   \<and> replace_open (js ''{}\<newline>``` '' @ open_tag @ js ''n'')
       = js ''{}\<newline>``` '' @ replace_open (optional 0x0A (optional 0x6E (js ''n'')))
   \<and> list_all is_space (js '' '')
   \<and> replace_close (js ''{}\<newline>'' @ fence @ js '' '') = js ''{}\<newline>''
   \<and> \<not> closes (js ''[1]``` x'')
   \<and> replace_close (js ''[1]``` x'') = js ''[1]``` x''
   \<and> \<not> startsWith (js ''{"a":"```"}'') fence
   \<and> strip_fences (js ''{"a":"```"}'') = js ''{"a":"```"}''\<close>
proof -
  have 1: \<open>\<not> occurs open_tag (js ''{"a":"```"}'')\<close> by (simp add: string_eval)
  have 2: \<open>\<not> occurs open_tag (js ''{}\<newline>``` '' @ take 5 open_tag)\<close>
    by (simp add: string_eval)
  have 3: \<open>list_all is_space (js '' '')\<close> by (simp add: string_eval)
  have 4: \<open>\<not> closes (js ''[1]``` x'')\<close> by (simp add: string_eval)
  have 5: \<open>\<not> startsWith (js ''{"a":"```"}'') fence\<close> by (simp add: string_eval)
  from fence_patterns_reach
         [of \<open>js ''n\<newline>{}\<newline>``` ```json''\<close> \<open>js ''{"a":"```"}''\<close>
             \<open>js ''{}\<newline>``` ''\<close> \<open>js ''n''\<close> \<open>js '' ''\<close>
             \<open>js ''{}\<newline>''\<close> \<open>js ''[1]``` x''\<close> \<open>js ''{"a":"```"}''\<close>]
       1 2 3 4 5
  show ?thesis by blast
qed

text \<open>
  A reply that begins with a fence and holds a second tagged marker inside a JSON string: the
  marker inside is removed with the one in front, and the value that is parsed is not the one
  that was sent. And a reply with a fence in its interior that is followed by a blank and a
  tagged marker: both are removed.
\<close>

theorem interior_tagged_fence_removed:
  \<open>strip_fences (js ''```json\<newline>["```json"]\<newline>```'') = js ''[""]''
   \<and> normalize (js ''```json\<newline>["```json"]\<newline>```'') =
       \<lparr>status = 200, payload = Structured (JArray [JString []])\<rparr>
   \<and> strip_fences (js ''```json\<newline>{}\<newline>``` ```json'') = js ''{}''\<close>
  by (simp add: normalize_def strip_fences_def string_eval json_eval)

text \<open>
  C4. A reply whose trimmed text does not begin with a fence and is valid JSON yields the
  structured success with exactly the value of the parse: nothing is validated or changed.
\<close>

theorem fence_free_round_trip:
  assumes "\<not> startsWith (trim raw) fence" and "JSON_parse (trim raw) = Some v"
  shows "normalize raw = \<lparr>status = 200, payload = Structured v\<rparr>"
  using assms by (simp add: normalize_def strip_fences_def)

theorem fence_free_round_trip_witness:
  \<open>\<not> startsWith (trim (js ''  {"a":1}  '')) fence
   \<and> JSON_parse (trim (js ''  {"a":1}  '')) = Some (JObject [(js ''a'', JNumber (js ''1''))])
   \<and> normalize (js ''  {"a":1}  '') =
       \<lparr>status = 200, payload = Structured (JObject [(js ''a'', JNumber (js ''1''))])\<rparr>\<close>
proof -
  have 1: \<open>\<not> startsWith (trim (js ''  {"a":1}  '')) fence\<close>
    by (simp add: string_eval)
  have 2: \<open>JSON_parse (trim (js ''  {"a":1}  '')) = Some (JObject [(js ''a'', JNumber (js ''1''))])\<close>
    by (simp add: string_eval json_eval)
  from 1 2 fence_free_round_trip [OF 1 2] show ?thesis by simp
qed

text \<open>
  C5. A reply whose text, trimmed and with the fences stripped where it begins with one, is not
  valid JSON yields the raw fallback with status 200: \<^verbatim>\<open>raw\<close> is the reply as it came, untrimmed
  and with its fences, and \<^verbatim>\<open>parsed\<close> is null. The empty reply is such a reply.
\<close>

theorem unparsable_reply_raw_fallback:
  assumes "JSON_parse (strip_fences (trim raw)) = None"
  shows "normalize raw =
           \<lparr>status = 200,
            payload = RawFallback (Some (JString raw))
                        (js ''Could not parse as JSON, returning raw analysis'')\<rparr>
         \<and> normalize [] =
           \<lparr>status = 200,
            payload = RawFallback (Some (JString []))
                        (js ''Could not parse as JSON, returning raw analysis'')\<rparr>"
proof -
  have "JSON_parse (strip_fences (trim [])) = None"
    by (simp add: trim_def strip_fences_def startsWith_def fence_def JSON_parse_empty)
  with assms show ?thesis by (simp add: normalize_def fallback_def)
qed

theorem unparsable_reply_raw_fallback_witness:
  \<open>JSON_parse (strip_fences (trim (js ''Sorry, I cannot process this.''))) = None
   \<and> normalize (js ''Sorry, I cannot process this.'') =
       \<lparr>status = 200,
        payload = RawFallback (Some (JString (js ''Sorry, I cannot process this.'')))
                    (js ''Could not parse as JSON, returning raw analysis'')\<rparr>\<close>
proof -
  have 1: \<open>JSON_parse (strip_fences (trim (js ''Sorry, I cannot process this.''))) = None\<close>
    by (simp add: strip_fences_def string_eval json_eval)
  from unparsable_reply_raw_fallback [OF 1] 1 show ?thesis by blast
qed


section \<open>The handler\<close>

lemma handler_sent:
  assumes "fetched (handler t apiKey fetch req) = Some out"
  shows "response (handler t apiKey fetch req) = receive t (fetch out)"
  using assms
  by (auto simp: handler_def finish_def Let_def split: if_splits option.splits prod.splits)

lemma handler_sent_messages:
  assumes "fetched (handler t apiKey fetch req) = Some out"
  shows "\<exists>b sys usr. body req = Some b \<and> build_prompts t b = Some (sys, usr)
           \<and> build_messages b usr = Some (messages out) \<and> system out = sys
           \<and> http_method req = js ''POST'' \<and> truthy apiKey"
  using assms
  by (auto simp: handler_def finish_def Let_def split: if_splits option.splits prod.splits)

lemma extraction_result_fallback: "extraction_result (fallback raw)"
  by (simp add: fallback_def extraction_result_def)

lemma extraction_result_normalize: "extraction_result (normalize raw)"
  by (simp add: normalize_def extraction_result_fallback split: option.splits)
     (simp add: extraction_result_def)

lemma extraction_result_normalize_text: "extraction_result (normalize_text text)"
  by (simp add: normalize_text_def extraction_result_normalize extraction_result_fallback
           split: option.splits json.splits)

lemma extraction_result_server_error: "extraction_result (server_error e)"
  by (simp add: server_error_def extraction_result_def ok_def)

lemma extraction_result_failure:
  "\<not> ok st \<Longrightarrow> extraction_result \<lparr>status = st, payload = Failure e x\<rparr>"
  by (simp add: extraction_result_def)

lemma extraction_result_receive: "extraction_result (receive t r)"
  by (simp add: receive_def extraction_result_normalize_text extraction_result_server_error
        extraction_result_failure ok_def
        split: fetch_result.splits option.splits sum.splits json.splits)

lemma receive_not_missing_content:
  "receive t r \<noteq> \<lparr>status = 400, payload = Failure e NoExtra\<rparr>"
  by (simp add: receive_def server_error_def normalize_text_def normalize_def fallback_def
        split: fetch_result.splits option.splits sum.splits json.splits)

lemmas handler_eval = handler_def finish_def build_prompts_def build_messages_def truthy_def
  or_else_def to_string_def analyze_texts_def Let_def

lemmas receive_eval = receive_def get_def normalize_text_def normalize_def strip_fences_def
  fallback_def server_error_def ok_def

text \<open>
  Some replies of the provider with status 200: a text block after a block of another type,
  no text block, a text block without text, a body that is not JSON, and a JSON body without
  content.
\<close>

lemma reply_with_text_block:
  \<open>receive t (Resolved 200
      (js ''{"content":[{"type":"tool_use"},{"type":"text","text":"  [1]  "}]}''))
   = \<lparr>status = 200, payload = Structured (JArray [JNumber (js ''1'')])\<rparr>\<close>
  by (simp add: receive_eval string_eval json_eval)

lemma reply_without_text_block:
  \<open>receive t (Resolved 200 (js ''{"content":[]}''))
   = \<lparr>status = 500, payload = Failure (no_text t) NoExtra\<rparr>\<close>
  by (simp add: receive_eval string_eval json_eval)

lemma reply_with_textless_block:
  \<open>receive t (Resolved 200 (js ''{"content":[{"type":"text"}]}'')) = fallback None\<close>
  by (simp add: receive_eval string_eval json_eval)

lemma reply_not_json:
  \<open>receive t (Resolved 200 (js ''<html>'')) = server_error SyntaxError\<close>
  by (simp add: receive_eval string_eval json_eval)

lemma reply_without_content:
  \<open>receive t (Resolved 200 (js ''{"error":1}'')) = server_error TypeError\<close>
  by (simp add: receive_eval string_eval json_eval)




text \<open>
  C6. When the credential is absent (or empty), every POST request is answered with status 500
  and the configuration failure, whatever its body: the body is not read, no prompt is built
  and no outbound call is made. Requests of other methods are answered by the method checks,
  which come first.
\<close>

theorem missing_credential_post:
  assumes "http_method req = js ''POST''" and "\<not> truthy apiKey"
  shows "handler t apiKey fetch req =
           \<lparr>response = \<lparr>status = 500, payload = Failure (key_missing t) NoExtra\<rparr>,
            prompts = None, fetched = None\<rparr>"
  using assms by (simp add: handler_def finish_def POST_not_OPTIONS)

text \<open>A well-formed request and a request without a body get the same answer.\<close>

theorem missing_credential_post_witness:
  "http_method \<lparr>http_method = js ''POST'',
            body = Some \<lparr>parseType = Some (js ''email''), content = Some (js ''ETA 0700''),
                         imageBase64 = None, mimeType = None, existingShips = None\<rparr>\<rparr> = js ''POST''
   \<and> http_method \<lparr>http_method = js ''POST'', body = None\<rparr> = js ''POST''
   \<and> \<not> truthy None
   \<and> handler analyze_texts None (\<lambda>out. Resolved 200 [])
        \<lparr>http_method = js ''POST'',
         body = Some \<lparr>parseType = Some (js ''email''), content = Some (js ''ETA 0700''),
                      imageBase64 = None, mimeType = None, existingShips = None\<rparr>\<rparr> =
       \<lparr>response = \<lparr>status = 500, payload = Failure (key_missing analyze_texts) NoExtra\<rparr>,
        prompts = None, fetched = None\<rparr>
   \<and> handler analyze_texts None (\<lambda>out. Resolved 200 []) \<lparr>http_method = js ''POST'', body = None\<rparr> =
       \<lparr>response = \<lparr>status = 500, payload = Failure (key_missing analyze_texts) NoExtra\<rparr>,
        prompts = None, fetched = None\<rparr>"
proof -
  let ?req = "\<lparr>http_method = js ''POST'',
            body = Some \<lparr>parseType = Some (js ''email''), content = Some (js ''ETA 0700''),
                         imageBase64 = None, mimeType = None, existingShips = None\<rparr>\<rparr>"
  have 1: "http_method ?req = js ''POST''" by simp
  have 2: "http_method \<lparr>http_method = js ''POST'', body = None\<rparr> = js ''POST''" by simp
  have 3: "\<not> truthy None" by (simp add: truthy_def)
  from missing_credential_post [OF 1 3] missing_credential_post [OF 2 3] 1 2 3
  show ?thesis by blast
qed

text \<open>Without a credential, a GET request is answered with 405 and a preflight with 200.\<close>

theorem method_checks_precede_credential:
  "response (handler analyze_texts None (\<lambda>out. Rejected []) \<lparr>http_method = js ''GET'', body = None\<rparr>)
     = \<lparr>status = 405, payload = Failure (js ''Method not allowed'') NoExtra\<rparr>
   \<and> response (handler analyze_texts None (\<lambda>out. Rejected [])
                 \<lparr>http_method = js ''OPTIONS'', body = None\<rparr>)
     = \<lparr>status = 200, payload = NoBody\<rparr>"
  by (simp add: handler_def finish_def js_def)

text \<open>
  C7. Where the outbound call is made and fails, the handler answers with a failure. For a
  reply with a status outside 200 to 299 the answer has that status and carries the reply's
  body as details. For a rejected call, a network error, there is no upstream status or
  body: the answer has status 500, the error \<^verbatim>\<open>Server error\<close> and the message of the error that
  was thrown. The handler returns a response in both cases.
\<close>

theorem transport_failure_surfaced:
  assumes "fetched (handler t apiKey fetch req) = Some out"
  shows "(fetch out = Resolved st errorData \<and> \<not> ok st \<longrightarrow>
            response (handler t apiKey fetch req) =
              \<lparr>status = st, payload = Failure (api_error t) (Details errorData)\<rparr>)
       \<and> (fetch out = Rejected msg \<longrightarrow>
            response (handler t apiKey fetch req) =
              \<lparr>status = 500, payload = Failure (js ''Server error'') (Thrown (FetchError msg))\<rparr>)"
  using handler_sent [OF assms] by (simp add: receive_def server_error_def)

text \<open>An e-mail request whose call is answered with status 529, and one whose call is rejected.\<close>

theorem transport_failure_surfaced_witness:
  "fetched (handler analyze_texts (Some (js ''sk'')) (\<lambda>out. Resolved 529 (js ''overloaded''))
        \<lparr>http_method = js ''POST'',
         body = Some \<lparr>parseType = Some (js ''email''), content = Some (js ''ETA 0700''),
                      imageBase64 = None, mimeType = None, existingShips = None\<rparr>\<rparr>)
     = Some \<lparr>x_api_key = Some (js ''sk''), anthropic_version = js ''2023-06-01'',
             model = js ''claude-sonnet-4-20250514'', max_tokens = 4096,
             system = email_prompt,
             messages = [Message (js ''user'') (Plain (Some (js ''ETA 0700'')))]\<rparr>
   \<and> \<not> ok 529
   \<and> response (handler analyze_texts (Some (js ''sk'')) (\<lambda>out. Resolved 529 (js ''overloaded''))
        \<lparr>http_method = js ''POST'',
         body = Some \<lparr>parseType = Some (js ''email''), content = Some (js ''ETA 0700''),
                      imageBase64 = None, mimeType = None, existingShips = None\<rparr>\<rparr>)
     = \<lparr>status = 529, payload = Failure (js ''Claude API error'') (Details (js ''overloaded''))\<rparr>
   \<and> response (handler analyze_texts (Some (js ''sk'')) (\<lambda>out. Rejected (js ''fetch failed''))
        \<lparr>http_method = js ''POST'',
         body = Some \<lparr>parseType = Some (js ''email''), content = Some (js ''ETA 0700''),
                      imageBase64 = None, mimeType = None, existingShips = None\<rparr>\<rparr>)
     = \<lparr>status = 500,
        payload = Failure (js ''Server error'') (Thrown (FetchError (js ''fetch failed'')))\<rparr>"
proof -
  let ?req = "\<lparr>http_method = js ''POST'',
         body = Some \<lparr>parseType = Some (js ''email''), content = Some (js ''ETA 0700''),
                      imageBase64 = None, mimeType = None, existingShips = None\<rparr>\<rparr>"
  let ?out = "\<lparr>x_api_key = Some (js ''sk''), anthropic_version = js ''2023-06-01'',
             model = js ''claude-sonnet-4-20250514'', max_tokens = 4096,
             system = email_prompt,
             messages = [Message (js ''user'') (Plain (Some (js ''ETA 0700'')))]\<rparr>"
  have 1: "fetched (handler analyze_texts (Some (js ''sk''))
             (\<lambda>out. Resolved 529 (js ''overloaded'')) ?req) = Some ?out"
    by (simp add: handler_eval js_def)
  have 2: "fetched (handler analyze_texts (Some (js ''sk''))
             (\<lambda>out. Rejected (js ''fetch failed'')) ?req) = Some ?out"
    by (simp add: handler_eval js_def)
  have 3: "\<not> ok 529" by (simp add: ok_def)
  have 4: "api_error analyze_texts = js ''Claude API error''" by (simp add: analyze_texts_def)
  from transport_failure_surfaced [OF 1, of 529 "js ''overloaded''"] 3 4
  have a: "response (handler analyze_texts (Some (js ''sk''))
             (\<lambda>out. Resolved 529 (js ''overloaded'')) ?req)
     = \<lparr>status = 529, payload = Failure (js ''Claude API error'') (Details (js ''overloaded''))\<rparr>"
    by simp
  from transport_failure_surfaced [OF 2, of _ _ "js ''fetch failed''"]
  have b: "response (handler analyze_texts (Some (js ''sk''))
             (\<lambda>out. Rejected (js ''fetch failed'')) ?req)
     = \<lparr>status = 500,
        payload = Failure (js ''Server error'') (Thrown (FetchError (js ''fetch failed'')))\<rparr>"
    by simp
  from 1 3 a b show ?thesis by blast
qed

text \<open>
  A tally request whose call is rejected: the answer is the one of the outer \<^verbatim>\<open>catch\<close>, with
  status 500 and a message, and without details.
\<close>

theorem network_error_has_no_upstream_details:
  \<open>handler analyze_texts (Some (js ''sk'')) (\<lambda>out. Rejected (js ''ECONNRESET''))
      \<lparr>http_method = js ''POST'',
       body = Some \<lparr>parseType = Some (js ''tally''), content = Some (js ''Cargo: 120 coils''),
                    imageBase64 = None, mimeType = None, existingShips = None\<rparr>\<rparr>
    = \<lparr>response = \<lparr>status = 500,
                    payload = Failure (js ''Server error'') (Thrown (FetchError (js ''ECONNRESET'')))\<rparr>,
       prompts = Some (tally_prompt,
                       Some (js ''Analyze this tally/discharge report:'' @ [0x0A, 0x0A]
                               @ js ''Cargo: 120 coils'')),
       fetched = Some \<lparr>x_api_key = Some (js ''sk''), anthropic_version = js ''2023-06-01'',
             model = js ''claude-sonnet-4-20250514'', max_tokens = 4096,
             system = tally_prompt,
             messages = [Message (js ''user'')
                (Plain (Some (js ''Analyze this tally/discharge report:'' @ [0x0A, 0x0A]
                               @ js ''Cargo: 120 coils'')))]\<rparr>\<rparr>\<close>
  by (simp add: handler_eval receive_def server_error_def js_def)

text \<open>
  C8. Every invocation whose method is not \<^verbatim>\<open>OPTIONS\<close> returns one response, and it is one of
  the three outcomes: a structured success with status 200 (its \<^verbatim>\<open>parsed\<close> being whatever JSON
  value the reply held), a raw fallback with status 200, or a failure with a status outside
  200 to 299. A preflight gets an empty response with status 200, which is none of the three.
\<close>

theorem one_variant_per_call:
  "(http_method req = js ''OPTIONS'' \<longrightarrow>
      response (handler t apiKey fetch req) = \<lparr>status = 200, payload = NoBody\<rparr>)
   \<and> (http_method req \<noteq> js ''OPTIONS'' \<longrightarrow>
      extraction_result (response (handler t apiKey fetch req)))"
  by (simp add: handler_def finish_def Let_def extraction_result_receive extraction_result_server_error
        extraction_result_failure ok_def
        split: option.splits prod.splits)

text \<open>An e-mail request whose reply is the JSON text \<^verbatim>\<open>null\<close>: a structured success.\<close>

theorem one_variant_per_call_witness:
  \<open>http_method \<lparr>http_method = js ''POST'',
            body = Some \<lparr>parseType = Some (js ''email''), content = Some (js ''ETA 0700''),
                         imageBase64 = None, mimeType = None, existingShips = None\<rparr>\<rparr>
     \<noteq> js ''OPTIONS''
   \<and> extraction_result
        (response (handler analyze_texts (Some (js ''sk''))
           (\<lambda>out. Resolved 200 (js ''{"content":[{"type":"text","text":"null"}]}''))
           \<lparr>http_method = js ''POST'',
            body = Some \<lparr>parseType = Some (js ''email''), content = Some (js ''ETA 0700''),
                         imageBase64 = None, mimeType = None, existingShips = None\<rparr>\<rparr>))
   \<and> response (handler analyze_texts (Some (js ''sk''))
           (\<lambda>out. Resolved 200 (js ''{"content":[{"type":"text","text":"null"}]}''))
           \<lparr>http_method = js ''POST'',
            body = Some \<lparr>parseType = Some (js ''email''), content = Some (js ''ETA 0700''),
                         imageBase64 = None, mimeType = None, existingShips = None\<rparr>\<rparr>)
       = \<lparr>status = 200, payload = Structured JNull\<rparr>
   \<and> http_method \<lparr>http_method = js ''OPTIONS'', body = None\<rparr> = js ''OPTIONS''
   \<and> response (handler analyze_texts None (\<lambda>out. Resolved 200 [])
                  \<lparr>http_method = js ''OPTIONS'', body = None\<rparr>)
       = \<lparr>status = 200, payload = NoBody\<rparr>\<close>
proof -
  have 0: \<open>response (handler analyze_texts (Some (js ''sk''))
           (\<lambda>out. Resolved 200 (js ''{"content":[{"type":"text","text":"null"}]}''))
           \<lparr>http_method = js ''POST'',
            body = Some \<lparr>parseType = Some (js ''email''), content = Some (js ''ETA 0700''),
                         imageBase64 = None, mimeType = None, existingShips = None\<rparr>\<rparr>)
       = \<lparr>status = 200, payload = Structured JNull\<rparr>\<close>
    by (simp add: handler_eval receive_eval string_eval json_eval)
  have 1: "http_method \<lparr>http_method = js ''POST'',
            body = Some \<lparr>parseType = Some (js ''email''), content = Some (js ''ETA 0700''),
                         imageBase64 = None, mimeType = None, existingShips = None\<rparr>\<rparr>
     \<noteq> js ''OPTIONS''"
    by (simp add: js_def)
  have 2: "http_method \<lparr>http_method = js ''OPTIONS'', body = None\<rparr> = js ''OPTIONS''"
    by simp
  from one_variant_per_call
         [of "\<lparr>http_method = js ''POST'',
            body = Some \<lparr>parseType = Some (js ''email''), content = Some (js ''ETA 0700''),
                         imageBase64 = None, mimeType = None, existingShips = None\<rparr>\<rparr>"]
       one_variant_per_call [of "\<lparr>http_method = js ''OPTIONS'', body = None\<rparr>"] 0 1 2
  show ?thesis by blast
qed

text \<open>
  A preflight with a credential configured: status 200 and no body. And a reply whose text is
  the JSON text \<^verbatim>\<open>null\<close>: a success whose \<^verbatim>\<open>parsed\<close> is null and not an object.
\<close>

theorem preflight_is_no_variant:
  \<open>response (handler analyze_texts (Some (js ''sk'')) (\<lambda>out. Rejected [])
               \<lparr>http_method = js ''OPTIONS'', body = None\<rparr>)
     = \<lparr>status = 200, payload = NoBody\<rparr>
   \<and> \<not> extraction_result
          (response (handler analyze_texts (Some (js ''sk'')) (\<lambda>out. Rejected [])
                       \<lparr>http_method = js ''OPTIONS'', body = None\<rparr>))
   \<and> response (handler analyze_texts (Some (js ''sk''))
           (\<lambda>out. Resolved 200 (js ''{"content":[{"type":"text","text":"null"}]}''))
           \<lparr>http_method = js ''POST'',
            body = Some \<lparr>parseType = Some (js ''tally''), content = Some (js ''Cargo: 120 coils''),
                         imageBase64 = None, mimeType = None, existingShips = None\<rparr>\<rparr>)
     = \<lparr>status = 200, payload = Structured JNull\<rparr>\<close>
  by (simp add: handler_eval receive_eval string_eval json_eval extraction_result_def)

text \<open>
  C9. For a request in which both \<^verbatim>\<open>content\<close> and \<^verbatim>\<open>imageBase64\<close> are present, that is, are
  non-empty strings: the missing-content failure is never returned; whatever is sent out is a
  single user message with the image block and a text block that holds the user prompt of the
  parse type (the content itself for an e-mail or message, the tally introduction followed by
  the content for a tally), never the text-only message; and the message is sent for every
  such POST request with a credential and one of the three parse types.
\<close>

theorem image_path_when_both_present:
  assumes "body req = Some b" and "content b = Some c" and "c \<noteq> []"
    and "truthy (imageBase64 b)"
  shows "response (handler t apiKey fetch req) \<noteq>
           \<lparr>status = 400, payload = Failure (js ''Provide either text content or image'') NoExtra\<rparr>
       \<and> (fetched (handler t apiKey fetch req) = Some out \<longrightarrow>
            messages out =
              [Message (js ''user'')
                 (Blocks [ImageBlock (or_else (mimeType b) (js ''image/jpeg'')) (imageBase64 b),
                          TextBlock (if parseType b = Some (js ''tally'')
                                     then tally_intro t @ c else c)])])
       \<and> (http_method req = js ''POST'' \<and> truthy apiKey
            \<and> (parseType b = Some (js ''email'') \<or> parseType b = Some (js ''message'')
                 \<or> parseType b = Some (js ''tally''))
            \<longrightarrow> fetched (handler t apiKey fetch req) \<noteq> None)"
proof (intro conjI impI)
  show "response (handler t apiKey fetch req) \<noteq>
           \<lparr>status = 400, payload = Failure (js ''Provide either text content or image'') NoExtra\<rparr>"
    using assms error_texts_distinct
    by (auto simp: handler_def finish_def Let_def build_messages_def receive_not_missing_content
        split: option.splits prod.splits)
next
  assume "fetched (handler t apiKey fetch req) = Some out"
  from handler_sent_messages [OF this] assms(1)
  obtain sys usr where bp: "build_prompts t b = Some (sys, usr)"
    and bm: "build_messages b usr = Some (messages out)"
    by auto
  have usr: "usr = (if parseType b = Some (js ''tally'') then Some (tally_intro t @ c) else Some c)"
    using bp assms(2) mode_names_distinct
    by (auto simp: build_prompts_def to_string_def split: if_splits)
  have "or_else usr (js ''Extract all shipping information from this image. Return JSON only.'')
      = (if parseType b = Some (js ''tally'') then tally_intro t @ c else c)"
    unfolding usr using assms(3) by (simp add: or_else_def)
  with bm assms(4) show "messages out =
              [Message (js ''user'')
                 (Blocks [ImageBlock (or_else (mimeType b) (js ''image/jpeg'')) (imageBase64 b),
                          TextBlock (if parseType b = Some (js ''tally'')
                                     then tally_intro t @ c else c)])]"
    by (simp add: build_messages_def)
next
  assume a: "http_method req = js ''POST'' \<and> truthy apiKey
            \<and> (parseType b = Some (js ''email'') \<or> parseType b = Some (js ''message'')
                 \<or> parseType b = Some (js ''tally''))"
  then obtain sys usr where bp: "build_prompts t b = Some (sys, usr)"
    using valid_parseType [of t b] by auto
  have "build_messages b usr \<noteq> None" using assms(4) by (simp add: build_messages_def)
  then obtain msgs where "build_messages b usr = Some msgs" by auto
  with bp a assms(1) show "fetched (handler t apiKey fetch req) \<noteq> None"
    by (simp add: handler_def finish_def Let_def POST_not_OPTIONS)
qed

text \<open>A tally request with a report text and a PNG image.\<close>

theorem image_path_when_both_present_witness:
  \<open>truthy (Some (js ''iVBORw0KGgo=''))
   \<and> js ''Cargo: 120 coils'' \<noteq> []
   \<and> fetched (handler analyze_texts (Some (js ''sk''))
        (\<lambda>out. Resolved 200 (js ''{"content":[{"type":"text","text":"{}"}]}''))
        \<lparr>http_method = js ''POST'',
         body = Some \<lparr>parseType = Some (js ''tally''), content = Some (js ''Cargo: 120 coils''),
                      imageBase64 = Some (js ''iVBORw0KGgo=''), mimeType = Some (js ''image/png''),
                      existingShips = None\<rparr>\<rparr>)
     = Some \<lparr>x_api_key = Some (js ''sk''), anthropic_version = js ''2023-06-01'',
             model = js ''claude-sonnet-4-20250514'', max_tokens = 4096,
             system = tally_prompt,
             messages =
               [Message (js ''user'')
                 (Blocks [ImageBlock (js ''image/png'') (Some (js ''iVBORw0KGgo='')),
                          TextBlock (js ''Analyze this tally/discharge report:'' @ [0x0A, 0x0A]
                                       @ js ''Cargo: 120 coils'')])]\<rparr>
   \<and> response (handler analyze_texts (Some (js ''sk''))
        (\<lambda>out. Resolved 200 (js ''{"content":[{"type":"text","text":"{}"}]}''))
        \<lparr>http_method = js ''POST'',
         body = Some \<lparr>parseType = Some (js ''tally''), content = Some (js ''Cargo: 120 coils''),
                      imageBase64 = Some (js ''iVBORw0KGgo=''), mimeType = Some (js ''image/png''),
                      existingShips = None\<rparr>\<rparr>)
     \<noteq> \<lparr>status = 400, payload = Failure (js ''Provide either text content or image'') NoExtra\<rparr>\<close>
proof -
  let ?b = "\<lparr>parseType = Some (js ''tally''), content = Some (js ''Cargo: 120 coils''),
                      imageBase64 = Some (js ''iVBORw0KGgo=''), mimeType = Some (js ''image/png''),
                      existingShips = None\<rparr>"
  let ?req = "\<lparr>http_method = js ''POST'', body = Some ?b\<rparr>"
  let ?fetch = \<open>\<lambda>out::outbound. Resolved 200 (js ''{"content":[{"type":"text","text":"{}"}]}'')\<close>
  let ?r = "handler analyze_texts (Some (js ''sk'')) ?fetch ?req"
  have 1: "body ?req = Some ?b" by simp
  have 2: "content ?b = Some (js ''Cargo: 120 coils'')" by simp
  have 3: "js ''Cargo: 120 coils'' \<noteq> []" by (simp add: js_def)
  have 4: "truthy (imageBase64 ?b)" by (simp add: truthy_def js_def)
  have 5: "http_method ?req = js ''POST'' \<and> truthy (Some (js ''sk''))
            \<and> (parseType ?b = Some (js ''email'') \<or> parseType ?b = Some (js ''message'')
                 \<or> parseType ?b = Some (js ''tally''))"
    by (simp add: truthy_def js_def)
  note inst = image_path_when_both_present [OF 1 2 3 4, of analyze_texts "Some (js ''sk'')" ?fetch]
  from inst 5 have sent: "fetched ?r \<noteq> None" by blast
  have "fetched ?r = Some \<lparr>x_api_key = Some (js ''sk''), anthropic_version = js ''2023-06-01'',
             model = js ''claude-sonnet-4-20250514'', max_tokens = 4096,
             system = tally_prompt,
             messages =
               [Message (js ''user'')
                 (Blocks [ImageBlock (js ''image/png'') (Some (js ''iVBORw0KGgo='')),
                          TextBlock (js ''Analyze this tally/discharge report:'' @ [0x0A, 0x0A]
                                       @ js ''Cargo: 120 coils'')])]\<rparr>"
    by (simp add: handler_eval js_def)
  moreover from inst have "response ?r \<noteq>
      \<lparr>status = 400, payload = Failure (js ''Provide either text content or image'') NoExtra\<rparr>"
    by blast
  ultimately show ?thesis using 3 4 sent by simp
qed

text \<open>
  C10. Where a request carries \<^verbatim>\<open>imageBase64\<close> and no \<^verbatim>\<open>mimeType\<close>, the image block of the
  message that is sent declares the media type \<^verbatim>\<open>image/jpeg\<close>.
\<close>

theorem media_type_defaults_to_jpeg:
  assumes "body req = Some b" and "truthy (imageBase64 b)" and "mimeType b = None"
    and "fetched (handler t apiKey fetch req) = Some out"
  shows "\<exists>txt. messages out =
           [Message (js ''user'')
              (Blocks [ImageBlock (js ''image/jpeg'') (imageBase64 b), TextBlock txt])]"
proof -
  from handler_sent_messages [OF assms(4)] assms(1)
  obtain usr where "build_messages b usr = Some (messages out)" by auto
  with assms(2) have "messages out =
      [Message (js ''user'')
         (Blocks [ImageBlock (or_else (mimeType b) (js ''image/jpeg'')) (imageBase64 b),
                  TextBlock (or_else usr
                    (js ''Extract all shipping information from this image. Return JSON only.''))])]"
    by (simp add: build_messages_def)
  with assms(3) show ?thesis by (simp add: or_else_def)
qed

text \<open>An e-mail request with an image only: the generic instruction goes with the image.\<close>

theorem media_type_defaults_to_jpeg_witness:
  \<open>truthy (Some (js ''/9j/4AAQ''))
   \<and> fetched (handler analyze_texts (Some (js ''sk''))
        (\<lambda>out. Resolved 200 (js ''{"content":[{"type":"text","text":"{}"}]}''))
        \<lparr>http_method = js ''POST'',
         body = Some \<lparr>parseType = Some (js ''email''), content = None,
                      imageBase64 = Some (js ''/9j/4AAQ''), mimeType = None,
                      existingShips = None\<rparr>\<rparr>)
     = Some \<lparr>x_api_key = Some (js ''sk''), anthropic_version = js ''2023-06-01'',
             model = js ''claude-sonnet-4-20250514'', max_tokens = 4096,
             system = email_prompt,
             messages =
               [Message (js ''user'')
                 (Blocks [ImageBlock (js ''image/jpeg'') (Some (js ''/9j/4AAQ'')),
                          TextBlock (js ''Extract all shipping information from this image. Return JSON only.'')])]\<rparr>
   \<and> (\<exists>txt. messages \<lparr>x_api_key = Some (js ''sk''), anthropic_version = js ''2023-06-01'',
             model = js ''claude-sonnet-4-20250514'', max_tokens = 4096,
             system = email_prompt,
             messages =
               [Message (js ''user'')
                 (Blocks [ImageBlock (js ''image/jpeg'') (Some (js ''/9j/4AAQ'')),
                          TextBlock (js ''Extract all shipping information from this image. Return JSON only.'')])]\<rparr>
        = [Message (js ''user'')
              (Blocks [ImageBlock (js ''image/jpeg'') (Some (js ''/9j/4AAQ'')), TextBlock txt])])\<close>
proof -
  let ?b = "\<lparr>parseType = Some (js ''email''), content = None,
                      imageBase64 = Some (js ''/9j/4AAQ''), mimeType = None,
                      existingShips = None\<rparr>"
  let ?req = "\<lparr>http_method = js ''POST'', body = Some ?b\<rparr>"
  let ?fetch = \<open>\<lambda>out::outbound. Resolved 200 (js ''{"content":[{"type":"text","text":"{}"}]}'')\<close>
  let ?out = "\<lparr>x_api_key = Some (js ''sk''), anthropic_version = js ''2023-06-01'',
             model = js ''claude-sonnet-4-20250514'', max_tokens = 4096,
             system = email_prompt,
             messages =
               [Message (js ''user'')
                 (Blocks [ImageBlock (js ''image/jpeg'') (Some (js ''/9j/4AAQ'')),
                          TextBlock (js ''Extract all shipping information from this image. Return JSON only.'')])]\<rparr>"
  have 1: "body ?req = Some ?b" by simp
  have 2: "truthy (imageBase64 ?b)" by (simp add: truthy_def js_def)
  have 3: "mimeType ?b = None" by simp
  have 4: "fetched (handler analyze_texts (Some (js ''sk'')) ?fetch ?req) = Some ?out"
    by (simp add: handler_eval js_def)
  from media_type_defaults_to_jpeg [OF 1 2 3 4] 2 4 show ?thesis by simp
qed

end
